theory Spec2Isabelle
  imports Complex_Main
begin

section \<open>Discretised longitudinal trajectory planning\<close>

text \<open>
  The development follows the notebook on the discretisation of the planning problem:
  the finite-difference kinematic model \<open>v\<close>, \<open>a\<close>, \<open>j\<close>, the cost function \<open>J\<close>, the
  limit constraints \<open>cons_vel\<close> and \<open>cons_acc\<close>, the stub \<open>pos_ves\<close> and the list
  \<open>bounds\<close>. A numpy array of floats is a \<open>real list\<close>; floating-point
  arithmetic is idealised as arithmetic on \<^typ>\<open>real\<close>. A Python exception is a value
  \<open>Inl e\<close> of the result type \<open>error + 'a\<close>.

  Division by a zero step gives \<open>inf\<close> or \<open>nan\<close> in numpy, values the reals do not have;
  the theorems on the values of difference quotients therefore assume a step that is not
  zero.
\<close>

subsection \<open>Module-level names\<close>

datatype error = ValueError | IndexError | ZeroDivisionError

text \<open>
  The functions of the notebook read the module-level names \<open>N\<close>, \<open>del_t\<close>, \<open>v_des\<close>,
  \<open>v_max\<close>, \<open>a_max\<close>, \<open>vel_init\<close> and \<open>acc_init\<close>; the record holds their values.
  \<open>N\<close> is a Python int.
\<close>

record globals =
  T :: real
  N :: int
  del_t :: real
  v_max :: real
  a_max :: real
  vel_init :: real
  acc_init :: real
  v_des :: real

text \<open>
  The assignment \<^verbatim>\<open>del_t = T/(N-1)\<close>: true division of Python 3, which raises on a
  zero divisor.
\<close>

definition time_step :: "real \<Rightarrow> int \<Rightarrow> error + real" where
  "time_step t n = (if n - 1 = 0 then Inl ZeroDivisionError else Inr (t / of_int (n - 1)))"

text \<open>The values the notebook assigns: \<open>T = 10\<close>, \<open>N = 30\<close>, \<open>v_max = 30\<close>, \<open>a_max = 15\<close>,
  \<open>vel_init = 0\<close>, \<open>acc_init = 0\<close>, \<open>v_des = 20\<close>.\<close>

definition notebook :: globals where
  "notebook = \<lparr>T = 10, N = 30, del_t = 10 / 29, v_max = 30, a_max = 15,
     vel_init = 0, acc_init = 0, v_des = 20\<rparr>"

subsection \<open>Array operations\<close>

text \<open>
  \<^verbatim>\<open>np.zeros(n)\<close> refuses a negative size. It also refuses a size of \<open>2\<^sup>6\<^sup>3\<close> or more
  and one that memory cannot hold; the model leaves these limits of the machine out, so
  which sample counts are accepted is stated below for small counts only.
\<close>

definition np_zeros :: "int \<Rightarrow> error + real list" where
  "np_zeros n = (if n < 0 then Inl ValueError else Inr (replicate (nat n) 0))"

text \<open>
  The expression \<^verbatim>\<open>(y[1:] - y[:-1])/del_t\<close>: the two slices have the same length
  for every array \<open>y\<close>, so the element-wise difference never fails to broadcast.
\<close>

definition first_diff :: "real \<Rightarrow> real list \<Rightarrow> real list" where
  "first_diff dt y = map (\<lambda>d. d / dt) (map2 (\<lambda>p q. p - q) (drop 1 y) (butlast y))"

subsection \<open>Kinematic model\<close>

text \<open>
  Each function first allocates an array of zeros of a size computed from \<open>N\<close>, then
  rebinds the name to the difference quotient of its argument. The allocation is kept: it
  is the only statement of the model that can raise.
\<close>

definition v :: "globals \<Rightarrow> real list \<Rightarrow> error + real list" where
  "v g x =
     (case np_zeros (N g - 1) of
        Inl e \<Rightarrow> Inl e
      | Inr _ \<Rightarrow> Inr (first_diff (del_t g) x))"

definition a :: "globals \<Rightarrow> real list \<Rightarrow> error + real list" where
  "a g x =
     (case v g x of
        Inl e \<Rightarrow> Inl e
      | Inr v1 \<Rightarrow>
          (case np_zeros (N g - 2) of
             Inl e \<Rightarrow> Inl e
           | Inr _ \<Rightarrow> Inr (first_diff (del_t g) v1)))"

definition j :: "globals \<Rightarrow> real list \<Rightarrow> error + real list" where
  "j g x =
     (case a g x of
        Inl e \<Rightarrow> Inl e
      | Inr a1 \<Rightarrow>
          (case np_zeros (N g - 3) of
             Inl e \<Rightarrow> Inl e
           | Inr _ \<Rightarrow> Inr (first_diff (del_t g) a1)))"

subsection \<open>Cost function\<close>

text \<open>Python's \<open>sum\<close> adds the elements to 0; on reals that is \<^const>\<open>sum_list\<close>.\<close>

definition J :: "globals \<Rightarrow> real list \<Rightarrow> error + real" where
  "J g x =
     (case v g x of
        Inl e \<Rightarrow> Inl e
      | Inr vx \<Rightarrow>
          (case a g x of
             Inl e \<Rightarrow> Inl e
           | Inr ax \<Rightarrow>
               (case j g x of
                  Inl e \<Rightarrow> Inl e
                | Inr jx \<Rightarrow>
                    Inr (0.5 * (sum_list (map (\<lambda>y. (y - v_des g) ^ 2) vx)
                                + sum_list (map (\<lambda>y. y ^ 2) ax)
                                + sum_list (map (\<lambda>y. y ^ 2) jx)) * del_t g))))"

subsection \<open>Physical constraints\<close>

definition cons_vel :: "globals \<Rightarrow> real list \<Rightarrow> error + real list" where
  "cons_vel g x =
     (case v g x of Inl e \<Rightarrow> Inl e | Inr vx \<Rightarrow> Inr (map (\<lambda>y. v_max g - y) vx))"

definition cons_acc :: "globals \<Rightarrow> real list \<Rightarrow> error + real list" where
  "cons_acc g x =
     (case a g x of Inl e \<Rightarrow> Inl e | Inr ax \<Rightarrow> Inr (map (\<lambda>y. a_max g - y) ax))"

text \<open>
  \<^verbatim>\<open>def pos_ves(x): return\<close> has an empty return statement: it yields Python's \<open>None\<close>
  for every argument, and takes no obstacle.
\<close>

definition pos_ves :: "real list \<Rightarrow> real list option" where
  "pos_ves x = None"

subsection \<open>Bound constraints\<close>

text \<open>An upper bound is a float or \<^verbatim>\<open>np.inf\<close>.\<close>

datatype bound = Fin real | PosInf

text \<open>Assignment to a list element raises when the index is out of range.\<close>

definition set_item :: "'b list \<Rightarrow> nat \<Rightarrow> 'b \<Rightarrow> error + 'b list" where
  "set_item xs i y = (if i < length xs then Inr (xs[i := y]) else Inl IndexError)"

definition bounds :: "globals \<Rightarrow> error + (real \<times> bound) list" where
  "bounds g =
     (case set_item (replicate (nat (N g)) (0, PosInf)) 0 (0, Fin 0) of
        Inl e \<Rightarrow> Inl e
      | Inr b0 \<Rightarrow>
          (case set_item b0 1 (vel_init g * del_t g, Fin (vel_init g * del_t g)) of
             Inl e \<Rightarrow> Inl e
           | Inr b1 \<Rightarrow>
               set_item b1 2
                 (acc_init g * del_t g ^ 2 + 2 * vel_init g * del_t g,
                  Fin (acc_init g * del_t g ^ 2 + 2 * vel_init g * del_t g))))"

subsection \<open>The kinematic model and the cost in the words of the specification\<close>

text \<open>
  For comparison with the code, the sequences as the specification writes them, index by
  index: \<open>velocity[i] = (s[i+1] - s[i]) / \<Delta>t\<close>, \<open>acceleration[i] = (velocity[i+1] -
  velocity[i]) / \<Delta>t\<close>, \<open>jerk[i] = (acceleration[i+1] - acceleration[i]) / \<Delta>t\<close>, and the
  weighted cost over the index ranges \<open>0..N-2\<close>, \<open>0..N-3\<close>, \<open>0..N-4\<close> of a trajectory of
  length \<open>N\<close>.
\<close>

definition velocity :: "real \<Rightarrow> real list \<Rightarrow> nat \<Rightarrow> real" where
  "velocity dt s i = (s ! (i + 1) - s ! i) / dt"

definition acceleration :: "real \<Rightarrow> real list \<Rightarrow> nat \<Rightarrow> real" where
  "acceleration dt s i = (velocity dt s (i + 1) - velocity dt s i) / dt"

definition jerk :: "real \<Rightarrow> real list \<Rightarrow> nat \<Rightarrow> real" where
  "jerk dt s i = (acceleration dt s (i + 1) - acceleration dt s i) / dt"

definition J_spec :: "real \<Rightarrow> real \<Rightarrow> real \<Rightarrow> real \<Rightarrow> real \<Rightarrow> real list \<Rightarrow> real" where
  "J_spec vdes w_v w_a w_j dt s =
     0.5 * dt *
       (w_v * (\<Sum>i<length s - 1. (velocity dt s i - vdes) ^ 2)
        + w_a * (\<Sum>i<length s - 2. (acceleration dt s i) ^ 2)
        + w_j * (\<Sum>i<length s - 3. (jerk dt s i) ^ 2))"

subsection \<open>Mode enumeration\<close>

text \<open>
  Modelled from the spec: the mode enumerator. The notebook ends before obstacles are
  handled and has no code that enumerates obstacle modes, so the enumerator is written from
  the specification: for \<open>M\<close> obstacles it produces the boolean vectors of length \<open>M\<close> in
  binary counting order (\<open>False\<close> before \<open>True\<close>, the first obstacle most significant),
  and it fails with \<open>TooManyObstacles\<close> when \<open>M\<close> is above the cap. An obstacle is the
  rectangle \<open>{t_a, t_b, s_a, s_b}\<close> of the specification.
\<close>

datatype planning_error =
  InsufficientSamples | InvalidObstacleWindow | TooManyObstacles | NoFeasibleMode

record obstacle =
  t_a :: nat
  t_b :: nat
  s_a :: real
  s_b :: real

fun modes :: "nat \<Rightarrow> bool list list" where
  "modes 0 = [[]]"
| "modes (Suc m) = map ((#) False) (modes m) @ map ((#) True) (modes m)"

definition mode_enumerator :: "nat \<Rightarrow> obstacle list \<Rightarrow> planning_error + bool list list" where
  "mode_enumerator cap obs =
     (if cap < length obs then Inl TooManyObstacles else Inr (modes (length obs)))"

subsection \<open>Obstacle constraint\<close>



subsection \<open>Concrete inputs\<close>

text \<open>Module-level values with four and with three samples, for evaluation.\<close>

definition four_samples :: globals where
  "four_samples = \<lparr>T = 3, N = 4, del_t = 1, v_max = 30, a_max = 15,
     vel_init = 0, acc_init = 0, v_des = 0\<rparr>"



definition moving_start :: globals where
  "moving_start = \<lparr>T = 3, N = 4, del_t = 1, v_max = 30, a_max = 15,
     vel_init = 2, acc_init = 1, v_des = 20\<rparr>"

section \<open>Properties of the difference quotient\<close>

lemma length_first_diff: "length (first_diff dt y) = length y - 1"
  by (simp add: first_diff_def)

lemma nth_first_diff:
  "i < length y - 1 \<Longrightarrow> first_diff dt y ! i = (y ! (i + 1) - y ! i) / dt"
  by (simp add: first_diff_def nth_butlast)

lemma np_zeros_ok: "0 \<le> n \<Longrightarrow> np_zeros n = Inr (replicate (nat n) 0)"
  by (simp add: np_zeros_def)

lemma v_ok: "1 \<le> N g \<Longrightarrow> v g x = Inr (first_diff (del_t g) x)"
  by (simp add: v_def np_zeros_def)

lemma a_ok: "2 \<le> N g \<Longrightarrow> a g x = Inr (first_diff (del_t g) (first_diff (del_t g) x))"
  by (simp add: a_def v_ok np_zeros_def)

lemma j_ok:
  "3 \<le> N g \<Longrightarrow>
   j g x = Inr (first_diff (del_t g) (first_diff (del_t g) (first_diff (del_t g) x)))"
  by (simp add: j_def a_ok np_zeros_def)

lemma first_diff_shift: "first_diff dt (map (\<lambda>s. s + c) y) = first_diff dt y"
  by (auto simp add: first_diff_def drop_map map_butlast [symmetric] zip_map_map)

lemma sum_list_map_nth: "sum_list (map f ys) = (\<Sum>i<length ys. f (ys ! i))"
proof -
  have "sum_list (map f ys) = (\<Sum>i = 0..<length (map f ys). map f ys ! i)"
    by (rule sum_list_sum_nth)
  also have "\<dots> = (\<Sum>i<length ys. f (ys ! i))"
    by (simp add: atLeast0LessThan)
  finally show ?thesis .
qed

lemma nth_first_diff_velocity:
  "i < length x - 1 \<Longrightarrow> first_diff dt x ! i = velocity dt x i"
  by (simp add: nth_first_diff velocity_def)

lemma nth_first_diff_acceleration:
  assumes "i < length x - 2"
  shows "first_diff dt (first_diff dt x) ! i = acceleration dt x i"
proof -
  have "i < length (first_diff dt x) - 1"
    using assms by (simp add: length_first_diff)
  then have "first_diff dt (first_diff dt x) ! i
      = (first_diff dt x ! (i + 1) - first_diff dt x ! i) / dt"
    by (rule nth_first_diff)
  moreover have "first_diff dt x ! (i + 1) = velocity dt x (i + 1)"
    using assms by (intro nth_first_diff_velocity) simp
  moreover have "first_diff dt x ! i = velocity dt x i"
    using assms by (intro nth_first_diff_velocity) simp
  ultimately show ?thesis by (simp only: acceleration_def)
qed

lemma nth_first_diff_jerk:
  assumes "i < length x - 3"
  shows "first_diff dt (first_diff dt (first_diff dt x)) ! i = jerk dt x i"
proof -
  let ?acs = "first_diff dt (first_diff dt x)"
  have "i < length ?acs - 1"
    using assms by (simp add: length_first_diff)
  then have "first_diff dt ?acs ! i = (?acs ! (i + 1) - ?acs ! i) / dt"
    by (rule nth_first_diff)
  moreover have "?acs ! (i + 1) = acceleration dt x (i + 1)"
    using assms by (intro nth_first_diff_acceleration) simp
  moreover have "?acs ! i = acceleration dt x i"
    using assms by (intro nth_first_diff_acceleration) simp
  ultimately show ?thesis by (simp only: jerk_def)
qed

lemma length_first_diff2: "length (first_diff dt (first_diff dt x)) = length x - 2"
  by (simp add: length_first_diff)

lemma length_first_diff3:
  "length (first_diff dt (first_diff dt (first_diff dt x))) = length x - 3"
  by (simp add: length_first_diff)

lemma first_diff_ramp: "first_diff 1 [0, 1, 2, 3] = [1, 1, 1]"
  by (simp add: first_diff_def)
lemma first_diff_ones: "first_diff 1 [1, 1, 1] = [0, 0]"
  by (simp add: first_diff_def)
lemma first_diff_zeros: "first_diff 1 [0, 0] = [0]"
  by (simp add: first_diff_def)

lemma sum_list_squares_nonneg: "0 \<le> sum_list (map (\<lambda>y::real. (y - c) ^ 2) ys)"
  by (rule sum_list_nonneg) auto

lemma first_diff_const_velocity:
  assumes "dt \<noteq> 0" and "\<forall>i<length x. x ! i = c * real i * dt"
  shows "first_diff dt x = replicate (length x - 1) c"
proof (rule nth_equalityI)
  show "length (first_diff dt x) = length (replicate (length x - 1) c)"
    by (simp add: length_first_diff)
next
  fix i assume "i < length (first_diff dt x)"
  then have i: "i < length x - 1" by (simp add: length_first_diff)
  then have "x ! (i + 1) = c * real (i + 1) * dt" and "x ! i = c * real i * dt"
    using assms(2) by simp_all
  then have "first_diff dt x ! i = (c * real (i + 1) * dt - c * real i * dt) / dt"
    using i by (simp add: nth_first_diff)
  also have "\<dots> = c"
    using assms(1) by (simp add: field_simps)
  finally show "first_diff dt x ! i = replicate (length x - 1) c ! i"
    using i by simp
qed

lemma first_diff_replicate: "first_diff dt (replicate n c) = replicate (n - 1) 0"
  by (rule nth_equalityI) (simp_all add: length_first_diff nth_first_diff)

lemma bounds_ok:
  assumes "3 \<le> N g"
  shows "bounds g = Inr ((replicate (nat (N g)) (0, PosInf))
      [0 := (0, Fin 0),
       1 := (vel_init g * del_t g, Fin (vel_init g * del_t g)),
       2 := (acc_init g * del_t g ^ 2 + 2 * vel_init g * del_t g,
             Fin (acc_init g * del_t g ^ 2 + 2 * vel_init g * del_t g))])"
  using assms by (simp add: bounds_def set_item_def)


lemma length_modes: "length (modes m) = 2 ^ m"
  by (induction m) simp_all

lemma set_modes: "set (modes m) = {bs. length bs = m}"
proof (induction m)
  case 0
  then show ?case by auto
next
  case (Suc m)
  have "{bs :: bool list. length bs = Suc m} = (\<Union>b. (#) b ` {bs. length bs = m})"
    by (auto simp: length_Suc_conv)
  also have "\<dots> = (#) False ` {bs. length bs = m} \<union> (#) True ` {bs. length bs = m}"
    by (auto simp: UNIV_bool)
  finally show ?case using Suc by simp
qed

lemma distinct_modes: "distinct (modes m)"
proof (induction m)
  case 0
  then show ?case by simp
next
  case (Suc m)
  then show ?case by (auto simp: distinct_map)
qed



section \<open>The kinematic model\<close>

text \<open>
  Claim C2. For a trajectory \<open>x\<close> whose length is the sample count \<open>N \<ge> 4\<close>, with a
  positive horizon \<open>T\<close> and the step \<open>del_t\<close> obtained by the assignment
  \<^verbatim>\<open>del_t = T/(N-1)\<close>, the three functions return: the velocity has \<open>N - 1\<close> entries
  \<open>(x[i+1] - x[i]) / del_t\<close>, the acceleration \<open>N - 2\<close> entries \<open>(velocity[i+1] -
  velocity[i]) / del_t\<close> and the jerk \<open>N - 3\<close> entries \<open>(acceleration[i+1] -
  acceleration[i]) / del_t\<close>, and \<open>del_t = T / (N - 1)\<close>.
\<close>

theorem kinematic_model_values:
  assumes "4 \<le> N g" and "int (length x) = N g" and "0 < T g"
    and "time_step (T g) (N g) = Inr (del_t g)"
  shows "\<exists>vs acs js. v g x = Inr vs \<and> a g x = Inr acs \<and> j g x = Inr js
     \<and> del_t g = T g / of_int (N g - 1)
     \<and> int (length vs) = N g - 1
     \<and> (\<forall>i<length vs. vs ! i = (x ! (i + 1) - x ! i) / del_t g)
     \<and> int (length acs) = N g - 2
     \<and> (\<forall>i<length acs. acs ! i = (vs ! (i + 1) - vs ! i) / del_t g)
     \<and> int (length js) = N g - 3
     \<and> (\<forall>i<length js. js ! i = (acs ! (i + 1) - acs ! i) / del_t g)"
proof -
  let ?vs = "first_diff (del_t g) x"
  let ?acs = "first_diff (del_t g) ?vs"
  let ?js = "first_diff (del_t g) ?acs"
  have dt: "del_t g = T g / of_int (N g - 1)"
    using assms(4) by (simp add: time_step_def split: if_splits)
  have "v g x = Inr ?vs" "a g x = Inr ?acs" "j g x = Inr ?js"
    using assms(1) by (simp_all add: v_ok a_ok j_ok)
  moreover have "int (length ?vs) = N g - 1" "int (length ?acs) = N g - 2"
      "int (length ?js) = N g - 3"
    using assms(1,2) by (simp_all add: length_first_diff)
  moreover have "\<forall>i<length ?vs. ?vs ! i = (x ! (i + 1) - x ! i) / del_t g"
    "\<forall>i<length ?acs. ?acs ! i = (?vs ! (i + 1) - ?vs ! i) / del_t g"
    "\<forall>i<length ?js. ?js ! i = (?acs ! (i + 1) - ?acs ! i) / del_t g"
    by (simp_all add: length_first_diff nth_first_diff)
  ultimately show ?thesis using dt by blast
qed

text \<open>The notebook's own values, on its initial guess \<^verbatim>\<open>np.arange(30)\<close>.\<close>

theorem kinematic_model_values_witness:
  "4 \<le> N notebook \<and> int (length (map real [0..<30])) = N notebook \<and> 0 < T notebook
   \<and> time_step (T notebook) (N notebook) = Inr (del_t notebook)
   \<and> (\<exists>vs acs js. v notebook (map real [0..<30]) = Inr vs
        \<and> a notebook (map real [0..<30]) = Inr acs \<and> j notebook (map real [0..<30]) = Inr js
        \<and> int (length vs) = 29 \<and> int (length acs) = 28 \<and> int (length js) = 27)"
proof -
  have h1: "4 \<le> N notebook" by (simp add: notebook_def)
  have h2: "int (length (map real [0..<30])) = N notebook" by (simp add: notebook_def)
  have h3: "0 < T notebook" by (simp add: notebook_def)
  have h4: "time_step (T notebook) (N notebook) = Inr (del_t notebook)"
    by (simp add: notebook_def time_step_def)
  have n: "N notebook = 30" by (simp add: notebook_def)
  from kinematic_model_values [OF h1 h2 h3 h4] h1 h2 h3 h4 show ?thesis
    unfolding n by auto
qed

text \<open>
  Claim C10. Translation invariance: adding a constant \<open>c\<close> to every entry of a
  trajectory changes neither the velocity, nor the acceleration, nor the jerk, nor the cost
  (whether they return or raise).
\<close>

theorem translation_invariance:
  "v g (map (\<lambda>s. s + c) x) = v g x \<and> a g (map (\<lambda>s. s + c) x) = a g x
   \<and> j g (map (\<lambda>s. s + c) x) = j g x \<and> J g (map (\<lambda>s. s + c) x) = J g x"
proof -
  have hv: "v g (map (\<lambda>s. s + c) x) = v g x"
    by (simp add: v_def first_diff_shift split: sum.splits)
  have ha: "a g (map (\<lambda>s. s + c) x) = a g x"
    by (simp add: a_def hv)
  have hj: "j g (map (\<lambda>s. s + c) x) = j g x"
    by (simp add: j_def ha)
  have "J g (map (\<lambda>s. s + c) x) = J g x"
    by (simp only: J_def hv ha hj)
  with hv ha hj show ?thesis by simp
qed

text \<open>
  Claim C8. For a constant-velocity trajectory, \<open>x[i] = c \<cdot> i \<cdot> del_t\<close> with a step
  \<open>del_t \<noteq> 0\<close>, the acceleration and the jerk are returned (\<open>N \<ge> 3\<close>) and all their entries
  are 0.
\<close>

theorem constant_velocity:
  assumes "3 \<le> N g" and "del_t g \<noteq> 0"
    and "\<forall>i<length x. x ! i = c * real i * del_t g"
  shows "\<exists>acs js. a g x = Inr acs \<and> j g x = Inr js
     \<and> length acs = length x - 2 \<and> length js = length x - 3
     \<and> (\<forall>i<length acs. acs ! i = 0) \<and> (\<forall>i<length js. js ! i = 0)"
proof -
  have vx: "first_diff (del_t g) x = replicate (length x - 1) c"
    using assms(2,3) by (rule first_diff_const_velocity)
  have "a g x = Inr (replicate (length x - 2) 0)"
    using assms(1) by (simp add: a_ok vx first_diff_replicate)
  moreover have "j g x = Inr (replicate (length x - 3) 0)"
    using assms(1) by (simp add: j_ok vx first_diff_replicate)
  ultimately show ?thesis by simp
qed

theorem constant_velocity_witness:
  "3 \<le> N four_samples \<and> del_t four_samples \<noteq> 0
   \<and> [0, 1, 2, 3] = map (\<lambda>i. 1 * real i * del_t four_samples) [0, 1, 2, 3]
   \<and> a four_samples [0, 1, 2, 3] = Inr [0, 0] \<and> j four_samples [0, 1, 2, 3] = Inr [0]"
proof -
  have h1: "3 \<le> N four_samples" and h2: "del_t four_samples \<noteq> 0"
    by (simp_all add: four_samples_def)
  have h3: "\<forall>i<length [0, 1, 2, 3 :: real]. [0, 1, 2, 3] ! i = 1 * real i * del_t four_samples"
    by (simp add: four_samples_def less_Suc_eq eval_nat_numeral)
  have h4: "[0, 1, 2, 3] = map (\<lambda>i. 1 * real i * del_t four_samples) [0, 1, 2, 3]"
    by (simp add: four_samples_def)
  from constant_velocity [OF h1 h2 h3] obtain acs js where
    r: "a four_samples [0, 1, 2, 3] = Inr acs" "j four_samples [0, 1, 2, 3] = Inr js"
      "length acs = 2" "length js = 1"
      "\<forall>i<length acs. acs ! i = 0" "\<forall>i<length js. js ! i = 0"
    by auto
  have "acs = [0, 0]"
    using r(3,5) by (intro nth_equalityI) (auto simp: less_Suc_eq eval_nat_numeral)
  moreover have "js = [0]"
    using r(4,6) by (intro nth_equalityI) auto
  ultimately show ?thesis using r(1,2) h1 h2 h4 by simp
qed




section \<open>The cost function\<close>

text \<open>
  Claim C1, as the code has it. The cost function has no weights: with \<open>N \<ge> 3\<close> (so that
  the kinematic model returns) and a step \<open>del_t \<noteq> 0\<close> it returns, for every trajectory,
  \<open>0.5 \<cdot> del_t \<cdot> (\<Sum>(velocity[i] - v_des)\<^sup>2 + \<Sum> acceleration[i]\<^sup>2 + \<Sum> jerk[i]\<^sup>2)\<close>, the
  three sums over the full index ranges of the kinematic model: the formula of the
  specification at \<open>w_v = w_a = w_j = 1\<close>.
\<close>

theorem cost_unit_weights:
  assumes "3 \<le> N g" and "del_t g \<noteq> 0"
  shows "J g x = Inr (J_spec (v_des g) 1 1 1 (del_t g) x)"
proof -
  let ?dt = "del_t g"
  have sv: "sum_list (map (\<lambda>y. (y - v_des g) ^ 2) (first_diff ?dt x))
      = (\<Sum>i<length x - 1. (velocity ?dt x i - v_des g) ^ 2)"
    by (simp add: sum_list_map_nth length_first_diff nth_first_diff_velocity)
  have sa: "sum_list (map (\<lambda>y. y ^ 2) (first_diff ?dt (first_diff ?dt x)))
      = (\<Sum>i<length x - 2. (acceleration ?dt x i) ^ 2)"
    by (simp only: sum_list_map_nth length_first_diff2)
      (simp add: nth_first_diff_acceleration)
  have sj: "sum_list (map (\<lambda>y. y ^ 2) (first_diff ?dt (first_diff ?dt (first_diff ?dt x))))
      = (\<Sum>i<length x - 3. (jerk ?dt x i) ^ 2)"
    by (simp only: sum_list_map_nth length_first_diff3)
      (simp add: nth_first_diff_jerk)
  have "J g x = Inr (0.5 * ((\<Sum>i<length x - 1. (velocity ?dt x i - v_des g) ^ 2)
      + (\<Sum>i<length x - 2. (acceleration ?dt x i) ^ 2)
      + (\<Sum>i<length x - 3. (jerk ?dt x i) ^ 2)) * ?dt)"
    using assms(1) by (simp add: J_def v_ok a_ok j_ok sv sa sj)
  then show ?thesis by (simp add: J_spec_def)
qed

text \<open>
  The formula of claim C1 with weights fails on the code: at \<open>x = [0, 1, 2, 3]\<close>,
  \<open>del_t = 1\<close>, \<open>v_des = 0\<close> the code returns \<open>3/2\<close>, where the weighted formula with
  \<open>w_v = 2\<close>, \<open>w_a = w_j = 1\<close> gives \<open>3\<close>.
\<close>

theorem cost_weights_counterexample:
  "J four_samples [0, 1, 2, 3] = Inr (3 / 2) \<and> J_spec 0 2 1 1 1 [0, 1, 2, 3] = 3"
proof -
  have "J four_samples [0, 1, 2, 3] = Inr (3 / 2)"
    by (simp add: J_def v_def a_def j_def np_zeros_def four_samples_def first_diff_ramp first_diff_ones first_diff_zeros)
  moreover have "J_spec 0 2 1 1 1 [0, 1, 2, 3] = 3"
    by (simp add: J_spec_def velocity_def acceleration_def jerk_def lessThan_Suc
        eval_nat_numeral)
  ultimately show ?thesis by simp
qed

theorem cost_unit_weights_witness:
  "3 \<le> N four_samples \<and> del_t four_samples \<noteq> 0
   \<and> J four_samples [0, 1, 2, 3] = Inr (J_spec 0 1 1 1 1 [0, 1, 2, 3])"
  using cost_unit_weights [of four_samples "[0, 1, 2, 3]"]
  by (simp add: four_samples_def)

text \<open>
  Claim C9. With a positive step (and \<open>N \<ge> 3\<close>, so that the kinematic model returns) the
  cost function returns a value, and the value is not negative, for every trajectory and
  every desired velocity.
\<close>

theorem cost_nonneg:
  assumes "3 \<le> N g" and "0 < del_t g"
  shows "\<exists>c. J g x = Inr c \<and> 0 \<le> c"
proof -
  let ?dt = "del_t g"
  let ?s = "sum_list (map (\<lambda>y. (y - v_des g) ^ 2) (first_diff ?dt x))
      + sum_list (map (\<lambda>y. y ^ 2) (first_diff ?dt (first_diff ?dt x)))
      + sum_list (map (\<lambda>y. y ^ 2) (first_diff ?dt (first_diff ?dt (first_diff ?dt x))))"
  have "J g x = Inr (0.5 * ?s * ?dt)"
    using assms(1) by (simp add: J_def v_ok a_ok j_ok)
  moreover have "0 \<le> ?s"
    using sum_list_squares_nonneg [of "v_des g"] sum_list_squares_nonneg [of 0]
    by (simp add: add_nonneg_nonneg)
  then have "0 \<le> 0.5 * ?s * ?dt"
    using assms(2) by simp
  ultimately show ?thesis by blast
qed

theorem cost_nonneg_witness:
  "3 \<le> N four_samples \<and> 0 < del_t four_samples
   \<and> (\<exists>c. J four_samples [0, 1, 2, 3] = Inr c \<and> 0 \<le> c)"
  using cost_nonneg [of four_samples "[0, 1, 2, 3]"]
  by (simp add: four_samples_def)

section \<open>The limit constraints\<close>

text \<open>
  Claim C5. The velocity-limit constraint function is component-wise non-negative exactly
  when every velocity is at most \<open>v_max\<close>, and the acceleration-limit constraint function
  exactly when every acceleration is at most \<open>a_max\<close>; each has one component for every
  index of the velocity, respectively the acceleration.
\<close>

theorem limit_constraints:
  assumes "2 \<le> N g"
  shows "\<exists>vs acs cv ca. v g x = Inr vs \<and> a g x = Inr acs
     \<and> cons_vel g x = Inr cv \<and> cons_acc g x = Inr ca
     \<and> length cv = length vs \<and> length ca = length acs
     \<and> ((\<forall>i<length cv. 0 \<le> cv ! i) \<longleftrightarrow> (\<forall>i<length vs. vs ! i \<le> v_max g))
     \<and> ((\<forall>i<length ca. 0 \<le> ca ! i) \<longleftrightarrow> (\<forall>i<length acs. acs ! i \<le> a_max g))"
proof -
  let ?vs = "first_diff (del_t g) x"
  let ?acs = "first_diff (del_t g) ?vs"
  have hv: "v g x = Inr ?vs" and ha: "a g x = Inr ?acs"
    using assms by (simp_all add: v_ok a_ok)
  have cv: "cons_vel g x = Inr (map (\<lambda>y. v_max g - y) ?vs)"
    by (simp add: cons_vel_def hv)
  have ca: "cons_acc g x = Inr (map (\<lambda>y. a_max g - y) ?acs)"
    by (simp add: cons_acc_def ha)
  show ?thesis
    unfolding hv ha cv ca by simp
qed

theorem limit_constraints_witness:
  "2 \<le> N four_samples
   \<and> v four_samples [0, 1, 2, 3] = Inr [1, 1, 1] \<and> a four_samples [0, 1, 2, 3] = Inr [0, 0]
   \<and> cons_vel four_samples [0, 1, 2, 3] = Inr [29, 29, 29]
   \<and> cons_acc four_samples [0, 1, 2, 3] = Inr [15, 15]
   \<and> (\<exists>cv ca. cons_vel four_samples [0, 1, 2, 3] = Inr cv
        \<and> cons_acc four_samples [0, 1, 2, 3] = Inr ca \<and> length cv = 3 \<and> length ca = 2)"
proof -
  have h: "2 \<le> N four_samples" by (simp add: four_samples_def)
  have e: "v four_samples [0, 1, 2, 3] = Inr [1, 1, 1]"
    "a four_samples [0, 1, 2, 3] = Inr [0, 0]"
    "cons_vel four_samples [0, 1, 2, 3] = Inr [29, 29, 29]"
    "cons_acc four_samples [0, 1, 2, 3] = Inr [15, 15]"
    by (simp_all add: cons_vel_def cons_acc_def v_def a_def np_zeros_def four_samples_def
        first_diff_ramp first_diff_ones)
  from limit_constraints [OF h, of "[0, 1, 2, 3]"] h e show ?thesis by auto
qed

section \<open>The bound constraints\<close>

text \<open>
  Claim C4. With \<open>N \<ge> 3\<close> and a step \<open>del_t \<noteq> 0\<close>: every trajectory whose first three
  entries are \<open>0\<close>, \<open>vel_init \<cdot> del_t\<close> and \<open>acc_init \<cdot> del_t\<^sup>2 + 2 \<cdot> vel_init \<cdot> del_t\<close> has
  \<open>velocity[0] = vel_init\<close> and \<open>acceleration[0] = acc_init\<close>; and the list \<open>bounds\<close> has
  \<open>N\<close> entries, of which the first three have exactly these values as both lower and upper
  bound, and every entry from index 3 on has the lower bound 0 and the upper bound
  \<^verbatim>\<open>np.inf\<close>.
\<close>

theorem initial_state_pinned:
  assumes "3 \<le> N g" and "del_t g \<noteq> 0" and "3 \<le> length x"
    and "x ! 0 = 0" and "x ! 1 = vel_init g * del_t g"
    and "x ! 2 = acc_init g * del_t g ^ 2 + 2 * vel_init g * del_t g"
  shows "(\<exists>vs acs. v g x = Inr vs \<and> a g x = Inr acs
            \<and> vs ! 0 = vel_init g \<and> acs ! 0 = acc_init g)
     \<and> (\<exists>bs. bounds g = Inr bs \<and> int (length bs) = N g
            \<and> bs ! 0 = (0, Fin 0)
            \<and> bs ! 1 = (vel_init g * del_t g, Fin (vel_init g * del_t g))
            \<and> bs ! 2 = (acc_init g * del_t g ^ 2 + 2 * vel_init g * del_t g,
                        Fin (acc_init g * del_t g ^ 2 + 2 * vel_init g * del_t g))
            \<and> (\<forall>i. 3 \<le> i \<and> int i < N g \<longrightarrow> bs ! i = (0, PosInf)))"
proof -
  let ?dt = "del_t g"
  let ?vs = "first_diff ?dt x"
  let ?acs = "first_diff ?dt ?vs"
  have v0: "?vs ! 0 = (x ! Suc 0 - x ! 0) / ?dt"
    and v1: "?vs ! Suc 0 = (x ! 2 - x ! Suc 0) / ?dt"
    using assms(3) nth_first_diff [of 0 x ?dt] nth_first_diff [of 1 x ?dt]
    by (simp_all add: numeral_2_eq_2)
  have a0: "?acs ! 0 = (?vs ! Suc 0 - ?vs ! 0) / ?dt"
    using assms(3) nth_first_diff [of 0 ?vs ?dt] by (simp add: length_first_diff)
  have "?vs ! 0 = vel_init g"
    using assms(2,4,5) by (simp add: v0)
  moreover have "?acs ! 0 = acc_init g"
    using assms(2,4,5,6) by (simp add: a0 v0 v1 field_simps power2_eq_square)
  moreover have "v g x = Inr ?vs" "a g x = Inr ?acs"
    using assms(1) by (simp_all add: v_ok a_ok)
  ultimately have kin: "\<exists>vs acs. v g x = Inr vs \<and> a g x = Inr acs
      \<and> vs ! 0 = vel_init g \<and> acs ! 0 = acc_init g"
    by blast
  let ?bs = "(replicate (nat (N g)) (0, PosInf))
      [0 := (0, Fin 0),
       1 := (vel_init g * ?dt, Fin (vel_init g * ?dt)),
       2 := (acc_init g * ?dt ^ 2 + 2 * vel_init g * ?dt,
             Fin (acc_init g * ?dt ^ 2 + 2 * vel_init g * ?dt))]"
  have b: "bounds g = Inr ?bs"
    using assms(1) by (rule bounds_ok)
  have len: "int (length ?bs) = N g"
    using assms(1) by simp
  have b0: "?bs ! 0 = (0, Fin 0)"
    using assms(1) by simp
  have b1: "?bs ! 1 = (vel_init g * ?dt, Fin (vel_init g * ?dt))"
    using assms(1) by simp
  have b2: "?bs ! 2 = (acc_init g * ?dt ^ 2 + 2 * vel_init g * ?dt,
      Fin (acc_init g * ?dt ^ 2 + 2 * vel_init g * ?dt))"
    using assms(1) by simp
  have rest: "\<forall>i. 3 \<le> i \<and> int i < N g \<longrightarrow> ?bs ! i = (0, PosInf)"
    by auto
  from b len b0 b1 b2 rest have "\<exists>bs. bounds g = Inr bs \<and> int (length bs) = N g
            \<and> bs ! 0 = (0, Fin 0)
            \<and> bs ! 1 = (vel_init g * del_t g, Fin (vel_init g * del_t g))
            \<and> bs ! 2 = (acc_init g * del_t g ^ 2 + 2 * vel_init g * del_t g,
                        Fin (acc_init g * del_t g ^ 2 + 2 * vel_init g * del_t g))
            \<and> (\<forall>i. 3 \<le> i \<and> int i < N g \<longrightarrow> bs ! i = (0, PosInf))"
    by blast
  with kin show ?thesis by blast
qed

theorem initial_state_pinned_witness:
  "3 \<le> N moving_start \<and> del_t moving_start \<noteq> 0 \<and> 3 \<le> length [0, 2, 5, 9 :: real]
   \<and> [0, 2, 5, 9] ! 0 = (0 :: real)
   \<and> [0, 2, 5, 9] ! 1 = vel_init moving_start * del_t moving_start
   \<and> [0, 2, 5, 9] ! 2 = acc_init moving_start * del_t moving_start ^ 2
        + 2 * vel_init moving_start * del_t moving_start
   \<and> (\<exists>vs acs. v moving_start [0, 2, 5, 9] = Inr vs \<and> a moving_start [0, 2, 5, 9] = Inr acs
        \<and> vs ! 0 = 2 \<and> acs ! 0 = 1)
   \<and> bounds moving_start = Inr [(0, Fin 0), (2, Fin 2), (5, Fin 5), (0, PosInf)]"
proof -
  have h: "3 \<le> N moving_start" "del_t moving_start \<noteq> 0" "3 \<le> length [0, 2, 5, 9 :: real]"
    "[0, 2, 5, 9] ! 0 = (0 :: real)"
    "[0, 2, 5, 9] ! 1 = vel_init moving_start * del_t moving_start"
    "[0, 2, 5, 9] ! 2 = acc_init moving_start * del_t moving_start ^ 2
        + 2 * vel_init moving_start * del_t moving_start"
    by (simp_all add: moving_start_def)
  have b: "bounds moving_start = Inr [(0, Fin 0), (2, Fin 2), (5, Fin 5), (0, PosInf)]"
    by (simp add: bounds_def set_item_def moving_start_def eval_nat_numeral)
  have e: "vel_init moving_start = 2" "acc_init moving_start = 1"
    by (simp_all add: moving_start_def)
  from initial_state_pinned [OF h] have
    "\<exists>vs acs. v moving_start [0, 2, 5, 9] = Inr vs \<and> a moving_start [0, 2, 5, 9] = Inr acs
        \<and> vs ! 0 = 2 \<and> acs ! 0 = 1"
    unfolding e by blast
  with h b show ?thesis by blast
qed

section \<open>Obstacles\<close>



text \<open>
  Claim C6. For \<open>M\<close> obstacles, \<open>M\<close> not above the cap, the mode enumerator yields
  \<open>2 ^ M\<close> mode vectors, pairwise distinct, which are exactly the boolean vectors of length
  \<open>M\<close>; for no obstacle it yields the single empty mode.
\<close>

theorem mode_enumerator_complete:
  assumes "length obs \<le> cap"
  shows "\<exists>ms. mode_enumerator cap obs = Inr ms \<and> length ms = 2 ^ length obs
     \<and> distinct ms \<and> set ms = {bs. length bs = length obs}
     \<and> mode_enumerator cap [] = Inr [[]]"
  using assms by (simp add: mode_enumerator_def length_modes distinct_modes set_modes)

theorem mode_enumerator_complete_witness:
  "length [\<lparr>t_a = 10, t_b = 15, s_a = 90, s_b = 110\<rparr>] \<le> 20
   \<and> mode_enumerator 20 [\<lparr>t_a = 10, t_b = 15, s_a = 90, s_b = 110\<rparr>] = Inr [[False], [True]]
   \<and> (\<exists>ms. mode_enumerator 20 [\<lparr>t_a = 10, t_b = 15, s_a = 90, s_b = 110\<rparr>] = Inr ms
        \<and> length ms = 2 \<and> distinct ms \<and> set ms = {bs. length bs = 1})"
proof -
  have h: "length [\<lparr>t_a = 10, t_b = 15, s_a = 90, s_b = 110\<rparr>] \<le> 20" by simp
  have e: "mode_enumerator 20 [\<lparr>t_a = 10, t_b = 15, s_a = 90, s_b = 110\<rparr>]
      = Inr [[False], [True]]"
    by (simp add: mode_enumerator_def)
  from mode_enumerator_complete [OF h] h e show ?thesis by simp
qed

end
